theory Spec2Isabelle
  imports Complex_Main "HOL-Library.Sublist"
begin

section \<open>Python strings\<close>

text \<open>
  A Python \<^verbatim>\<open>str\<close> is modelled as a \<^typ>\<open>string\<close>: a list of characters, each one a
  code point in the range 0..255. On this range \<^verbatim>\<open>str.lower()\<close> maps A..Z and the
  upper-case letters of Latin-1 (192..222 except the multiplication sign 215) to the code
  point 32 above, and leaves every other character alone; it keeps the length.
  The test \<^verbatim>\<open>k in s\<close> on strings is containment as a contiguous substring, which is
  \<^const>\<open>sublist\<close>.
\<close>

definition lower_char :: "char \<Rightarrow> char" where
  "lower_char c =
     (let n = (of_char c :: nat)
      in if (65 \<le> n \<and> n \<le> 90) \<or> (192 \<le> n \<and> n \<le> 222 \<and> n \<noteq> 215)
         then char_of (n + 32) else c)"

definition lower :: "string \<Rightarrow> string" where
  "lower s = map lower_char s"

text \<open>
  \<^verbatim>\<open>str.isspace()\<close> on the code points below 256: tab, line feed, vertical tab, form
  feed, carriage return, the four separators 28..31, the space, NEL (133) and the
  no-break space (160). \<^verbatim>\<open>str.strip()\<close> removes such characters from both ends.
\<close>

definition isspace :: "char \<Rightarrow> bool" where
  "isspace c =
     (let n = (of_char c :: nat)
      in (9 \<le> n \<and> n \<le> 13) \<or> (28 \<le> n \<and> n \<le> 32) \<or> n = 133 \<or> n = 160)"

definition strip :: "string \<Rightarrow> string" where
  "strip s = rev (dropWhile isspace (rev (dropWhile isspace s)))"

section \<open>The prompt classifier (advanced\_generator.py)\<close>

text \<open>\<^verbatim>\<open>any(keyword in prompt_lower for keyword in keywords)\<close>\<close>

definition any_keyword_in :: "string list \<Rightarrow> string \<Rightarrow> bool" where
  "any_keyword_in keywords prompt_lower = list_ex (\<lambda>keyword. sublist keyword prompt_lower) keywords"

text \<open>
  The three detection loops of \<^verbatim>\<open>_analyze_prompt\<close> have one shape: start from a
  default, walk the dictionary in insertion order, and stop (\<^verbatim>\<open>break\<close>) at the first
  entry one of whose keywords occurs in the lower-cased prompt.
\<close>

fun detect :: "string \<Rightarrow> (string \<times> string list) list \<Rightarrow> string \<Rightarrow> string" where
  "detect dflt [] prompt_lower = dflt"
| "detect dflt ((name, keywords) # rest) prompt_lower =
     (if any_keyword_in keywords prompt_lower then name else detect dflt rest prompt_lower)"

definition shape_types :: "(string \<times> string list) list" where
  "shape_types =
     [(''vehicle'', [''car'', ''truck'', ''motorcycle'', ''bike'', ''vehicle'', ''automobile'',
                    ''spaceship'', ''rocket'', ''ship'', ''boat'', ''airplane'', ''plane'',
                    ''helicopter'']),
      (''building'', [''house'', ''building'', ''castle'', ''tower'', ''skyscraper'', ''cottage'',
                     ''mansion'', ''apartment'', ''office'']),
      (''furniture'', [''chair'', ''table'', ''desk'', ''bed'', ''sofa'', ''couch'', ''cabinet'',
                      ''shelf'', ''lamp'']),
      (''character'', [''person'', ''human'', ''robot'', ''animal'', ''creature'', ''monster'',
                      ''dragon'']),
      (''weapon'', [''sword'', ''gun'', ''rifle'', ''pistol'', ''knife'', ''axe'', ''bow'',
                   ''arrow'']),
      (''nature'', [''tree'', ''flower'', ''plant'', ''rock'', ''mountain'', ''crystal'', ''gem'']),
      (''abstract'', [''abstract'', ''geometric'', ''sculpture'', ''art'', ''design''])]"

definition styles :: "(string \<times> string list) list" where
  "styles =
     [(''realistic'', [''realistic'', ''photorealistic'', ''detailed'', ''accurate'']),
      (''stylized'', [''stylized'', ''cartoon'', ''anime'', ''comic'', ''artistic'']),
      (''low_poly'', [''low poly'', ''low-poly'', ''minimal'', ''simple'', ''geometric'']),
      (''sci_fi'', [''sci-fi'', ''futuristic'', ''cyberpunk'', ''space'', ''alien'']),
      (''fantasy'', [''fantasy'', ''magical'', ''medieval'', ''ancient'', ''mythical''])]"

definition size_keywords :: "(string \<times> string list) list" where
  "size_keywords =
     [(''tiny'', [''tiny'', ''small'', ''miniature'', ''mini'']),
      (''normal'', [''normal'', ''standard'', ''regular'']),
      (''large'', [''large'', ''big'', ''huge'', ''massive'', ''giant''])]"

definition detail_words :: "string list" where
  "detail_words = [''detailed'', ''complex'', ''intricate'', ''elaborate'', ''ornate'',
                   ''decorated'', ''patterned'']"

definition simple_words :: "string list" where
  "simple_words = [''simple'', ''basic'', ''minimal'', ''clean'', ''plain'']"

text \<open>\<^verbatim>\<open>sum(1 for word in words if word in prompt_lower)\<close>\<close>

definition count_present :: "string list \<Rightarrow> string \<Rightarrow> int" where
  "count_present words prompt_lower =
     sum_list (map (\<lambda>word. 1) (filter (\<lambda>word. sublist word prompt_lower) words))"

definition estimate_complexity :: "string \<Rightarrow> int" where
  "estimate_complexity prompt =
     (let prompt_lower = lower prompt;
          detail_count = count_present detail_words prompt_lower;
          simple_count = count_present simple_words prompt_lower;
          base_complexity = 5;
          complexity = base_complexity + detail_count - simple_count
      in max 1 (min 10 complexity))"

text \<open>
  The dictionary \<^verbatim>\<open>_analyze_prompt\<close> returns. (The flags \<^verbatim>\<open>no_interior\<close>,
  \<^verbatim>\<open>simple_geometry\<close>, \<^verbatim>\<open>max_faces\<close> and \<^verbatim>\<open>optimize_for_game\<close> are put in a local
  dictionary that is not the one returned.)
\<close>

record shape_info =
  shape_type :: string
  style :: string
  size :: string
  complexity :: int
  symmetry :: string
  organic :: string

definition analyze_prompt :: "string \<Rightarrow> shape_info" where
  "analyze_prompt prompt =
     (let prompt_lower = lower prompt;
          detected_shape = detect ''abstract'' shape_types prompt_lower;
          detected_style = detect ''realistic'' styles prompt_lower;
          detected_size = detect ''normal'' size_keywords prompt_lower
      in \<lparr>shape_type = detected_shape,
          style = detected_style,
          size = detected_size,
          complexity = estimate_complexity prompt,
          symmetry = (if any_keyword_in [''symmetric'', ''balanced'', ''even''] prompt_lower
                      then ''symmetric'' else ''asymmetric''),
          organic = (if any_keyword_in [''organic'', ''natural'', ''curved'', ''flowing''] prompt_lower
                     then ''organic'' else ''geometric'')\<rparr>)"

section \<open>Exceptions, effects and the outside world\<close>

text \<open>
  The exceptions the code raises or catches. \<open>Other_error\<close> stands for any other
  subclass of \<^verbatim>\<open>Exception\<close> a collaborator may raise (OSError, AttributeError, ...);
  every \<^verbatim>\<open>except Exception\<close> clause catches all four.
\<close>

datatype exn =
    Exception string
  | ValueError string
  | TimeoutExpired
  | Other_error string

text \<open>
  \<^verbatim>\<open>str(e)\<close>: the message. (That of a timeout names the command and the limit;
  it is abridged here.)
\<close>

fun str_of_exn :: "exn \<Rightarrow> string" where
  "str_of_exn (Exception msg) = msg"
| "str_of_exn (ValueError msg) = msg"
| "str_of_exn TimeoutExpired = ''Command timed out''"
| "str_of_exn (Other_error msg) = msg"

text \<open>
  What a function does to the outside: the subprocesses it starts and the files it
  reads, writes (or hands to a collaborator as the path to write) and removes.
\<close>

datatype event =
    Subprocess "string list"
  | Read_file string
  | Write_file string
  | Unlink string

text \<open>
  A run of a function yields its outcome (\<open>Inl\<close> an exception that escapes, \<open>Inr\<close> the
  value returned) and the events in the order they happened.
\<close>

type_synonym 'a run = "(exn + 'a) \<times> event list"

definition ret :: "'a \<Rightarrow> 'a run" where
  "ret v = (Inr v, [])"

definition raise :: "exn \<Rightarrow> 'a run" where
  "raise e = (Inl e, [])"

text \<open>A call to a collaborator: its outcome, and the event of having called it.\<close>

definition call :: "event \<Rightarrow> exn + 'a \<Rightarrow> 'a run" where
  "call ev outcome = (outcome, [ev])"

text \<open>Sequencing: an exception ends the run.\<close>

definition bind :: "'a run \<Rightarrow> ('a \<Rightarrow> 'b run) \<Rightarrow> 'b run" where
  "bind m f =
     (case m of
        (Inl e, evs) \<Rightarrow> (Inl e, evs)
      | (Inr v, evs) \<Rightarrow> (case f v of (r, evs') \<Rightarrow> (r, evs @ evs')))"

text \<open>\<^verbatim>\<open>try: m  except Exception as e: handler(e)\<close>\<close>

definition try_except :: "'a run \<Rightarrow> (exn \<Rightarrow> 'a run) \<Rightarrow> 'a run" where
  "try_except m handler =
     (case m of
        (Inl e, evs) \<Rightarrow> (case handler e of (r, evs') \<Rightarrow> (r, evs @ evs'))
      | (Inr v, evs) \<Rightarrow> (Inr v, evs))"

text \<open>\<^verbatim>\<open>try: m  finally: cleanup\<close>, for a cleanup that lets nothing escape.\<close>

definition try_finally :: "'a run \<Rightarrow> event list \<Rightarrow> 'a run" where
  "try_finally m cleanup = (case m of (r, evs) \<Rightarrow> (r, evs @ cleanup))"

definition written_paths :: "event list \<Rightarrow> string list" where
  "written_paths evs = concat (map (\<lambda>ev. case ev of Write_file p \<Rightarrow> [p] | _ \<Rightarrow> []) evs)"

section \<open>Meshes\<close>

text \<open>
  A mesh is the term that built it. \<open>Base_shape g style scale\<close> is what the method
  \<^verbatim>\<open>_generate_<g>_shape(style, scale, config)\<close> returns (it reads neither the
  configuration nor a random source); \<open>Canned_geometry\<close> is the mesh made of the
  vertex and face arrays of the geometry generator; \<open>Loaded\<close> is a mesh read from a
  file. \<open>Concatenate\<close> is \<^verbatim>\<open>trimesh.util.concatenate\<close>.
\<close>

type_synonym point = "real \<times> real \<times> real"

datatype mesh =
    Base_shape string string real
  | Canned_geometry string
  | Loaded string
  | Uv_sphere real
  | Box real real real
  | Cylinder real real
  | Translated point mesh
  | Concatenate "mesh list"
  | Scaled real real real mesh
  | Vertex_noise nat mesh

section \<open>Identifiers, numbers and paths as text\<close>

definition digit_char :: "nat \<Rightarrow> char" where
  "digit_char d = char_of (48 + d)"

function str_of_nat :: "nat \<Rightarrow> string" where
  "str_of_nat n = (if n < 10 then [digit_char n] else str_of_nat (n div 10) @ [digit_char (n mod 10)])"
  by pat_completeness auto
termination
  by (relation "measure id") auto

definition str_of_int :: "int \<Rightarrow> string" where
  "str_of_int i = (if i < 0 then CHR ''-'' # str_of_nat (nat (- i)) else str_of_nat (nat i))"

text \<open>
  The job id is documented as an integer; some callers pass a string
  (\<^verbatim>\<open>f"fallback_{job_id}"\<close>). Both are formatted into file names by \<^verbatim>\<open>str\<close>.
\<close>

datatype job_id = Job_int int | Job_str string

fun py_str :: "job_id \<Rightarrow> string" where
  "py_str (Job_int i) = str_of_int i"
| "py_str (Job_str s) = s"

section \<open>The procedural generation pipeline (advanced\_generator.py)\<close>

datatype GenerationEngine = PROCEDURAL | AI_ENHANCED | HYBRID | TEXTURE_GENERATED

record GenerationConfig =
  engine :: GenerationEngine
  complexity :: int
  detail_level :: int
  material_style :: string
  generate_textures :: bool
  generate_materials :: bool
  variations :: int
  seed :: "int option"













record geometry_result =
  success :: bool
  geometry :: string



section \<open>The format converters (file\_converter.py)\<close>

datatype ExportFormat = OBJ | FBX | GLTF | STL | PLY | RBXM

text \<open>
  The script \<^verbatim>\<open>create_blender_script\<close> builds is a fixed text with the three
  arguments spliced in; it is kept as the three arguments.
\<close>

datatype blender_script = Blender_script string string string

definition create_blender_script :: "string \<Rightarrow> string \<Rightarrow> string \<Rightarrow> blender_script" where
  "create_blender_script obj_path output_path output_format =
     Blender_script obj_path output_path output_format"

text \<open>
  The collaborators of the converters. A field of type \<open>exn + 'a\<close> is a call that
  either raises or returns.
  \<^item> \<open>platform_windows\<close>: \<^verbatim>\<open>platform.system() == 'Windows'\<close>;
  \<^item> \<open>which\<close>: \<^verbatim>\<open>subprocess.run(['which', name])\<close> (\<^verbatim>\<open>where\<close> on Windows), giving the
    return code and the standard output;
  \<^item> \<open>path_exists\<close>: \<^verbatim>\<open>os.path.exists\<close>;
  \<^item> \<open>temp_script\<close>: writing the script to a named temporary file, giving its path;
  \<^item> \<open>run_blender\<close>: \<^verbatim>\<open>subprocess.run(cmd, timeout=300)\<close>, giving the return code and
    the standard error;
  \<^item> \<open>output_created\<close>: \<^verbatim>\<open>os.path.exists(output_path)\<close> after that run;
  \<^item> \<open>trimesh_load\<close>: \<^verbatim>\<open>trimesh.load\<close>, which may return \<^verbatim>\<open>None\<close>;
  \<^item> \<open>fbx_exporter_available\<close>:
    \<^verbatim>\<open>hasattr(mesh, 'export') and 'fbx' in mesh.exporters_available()\<close>;
  \<^item> \<open>mesh_export\<close>: \<^verbatim>\<open>mesh.export(path, file_type=...)\<close>;
  \<^item> \<open>EXPORT_AVAILABLE\<close>, \<open>export_engine_is_None\<close>: the two module variables set when
    the export engine is imported;
  \<^item> \<open>engine_export\<close>: the body of \<^verbatim>\<open>ExportEngine.export_model\<close> inside its
    \<^verbatim>\<open>try\<close> (mesh optimisation, then the exporter of the format).
\<close>

record world =
  platform_windows :: bool
  which :: "string \<Rightarrow> exn + int \<times> string"
  path_exists :: "string \<Rightarrow> bool"
  temp_script :: "blender_script \<Rightarrow> exn + string"
  run_blender :: "string list \<Rightarrow> exn + int \<times> string"
  output_created :: "string \<Rightarrow> bool"
  trimesh_load :: "string \<Rightarrow> exn + mesh option"
  fbx_exporter_available :: "mesh \<Rightarrow> exn + bool"
  mesh_export :: "mesh \<Rightarrow> string \<Rightarrow> string option \<Rightarrow> exn + unit"
  EXPORT_AVAILABLE :: bool
  export_engine_is_None :: bool
  engine_export :: "mesh \<Rightarrow> ExportFormat \<Rightarrow> string \<Rightarrow> exn + bool"

text \<open>
  \<^verbatim>\<open>os.path.join("generated", name)\<close> for a file name that starts with a letter:
  the two parts with the separator of the platform between them.
\<close>

definition path_sep :: "world \<Rightarrow> char" where
  "path_sep w = (if platform_windows w then CHR 0x5C else CHR ''/'')"

definition os_path_join :: "world \<Rightarrow> string \<Rightarrow> string \<Rightarrow> string" where
  "os_path_join w dir name = dir @ [path_sep w] @ name"

definition win_path :: "string list \<Rightarrow> string" where
  "win_path parts = concat (map (\<lambda>part. part @ [CHR 0x5C]) (butlast parts)) @ last parts"

definition windows_common_paths :: "string list" where
  "windows_common_paths =
     map (\<lambda>v. win_path [''C:'', ''Program Files'', ''Blender Foundation'', ''Blender '' @ v, ''blender.exe''])
       [''4.4'', ''4.3'', ''4.2'', ''4.1'', ''4.0'', ''3.6'', ''3.5'', ''3.4'', ''3.3'', ''3.2'', ''3.1'', ''3.0'']
     @ [win_path [''C:'', ''Program Files'', ''Blender'', ''blender.exe''],
        win_path [''C:'', ''blender'', ''blender.exe'']]
     @ map (\<lambda>v. win_path [''C:'', ''Program Files (x86)'', ''Blender Foundation'', ''Blender '' @ v, ''blender.exe''])
       [''4.4'', ''4.3'', ''4.2'', ''4.1'', ''4.0'', ''3.6'', ''3.5'', ''3.4'', ''3.3'', ''3.2'', ''3.1'', ''3.0'']
     @ [win_path [''C:'', ''Program Files (x86)'', ''Blender'', ''blender.exe'']]"

definition unix_common_paths :: "string list" where
  "unix_common_paths =
     [''/usr/bin/blender'', ''/usr/local/bin/blender'', ''/opt/blender/blender'',
      ''/snap/bin/blender'', ''/Applications/Blender.app/Contents/MacOS/Blender'']"

text \<open>
  The first loop of \<^verbatim>\<open>find_blender_executable\<close>: ask the system for each name in
  turn; a call that raises is passed over (\<^verbatim>\<open>except: pass\<close>); the first answer with
  return code 0 and a non-empty first line of the stripped output is returned.
\<close>

definition first_line :: "string \<Rightarrow> string" where
  "first_line s = takeWhile (\<lambda>c. c \<noteq> CHR 0x0A) s"

definition ask_system_path :: "world \<Rightarrow> string \<Rightarrow> string option run" where
  "ask_system_path w name =
     (let cmd = [if platform_windows w then ''where'' else ''which'', name]
      in try_except
           (bind (call (Subprocess cmd) (which w name))
              (\<lambda>(returncode, stdout).
                 if returncode = 0 \<and> first_line (strip stdout) \<noteq> []
                 then ret (Some (first_line (strip stdout))) else ret None))
           (\<lambda>e. ret None))"

fun search_system_path :: "world \<Rightarrow> string list \<Rightarrow> string option run" where
  "search_system_path w [] = ret None"
| "search_system_path w (name # names) =
     bind (ask_system_path w name)
       (\<lambda>found. case found of
            Some path \<Rightarrow> ret (Some path)
          | None \<Rightarrow> search_system_path w names)"

definition find_blender_executable :: "world \<Rightarrow> string option run" where
  "find_blender_executable w =
     (let blender_names = [''blender'', ''blender3d'']
      in bind (search_system_path w blender_names)
           (\<lambda>found. case found of
                Some path \<Rightarrow> ret (Some path)
              | None \<Rightarrow>
                  let common_paths =
                        (if platform_windows w then windows_common_paths else unix_common_paths)
                  in ret (find (path_exists w) common_paths)))"

definition output_path_for :: "world \<Rightarrow> job_id \<Rightarrow> string \<Rightarrow> string" where
  "output_path_for w job_id ext = os_path_join w ''generated'' (''model_'' @ py_str job_id @ ext)"

text \<open>
  \<^verbatim>\<open>convert_with_blender\<close>. The temporary script is removed in a \<^verbatim>\<open>finally\<close> clause
  whatever the run does. A timeout is raised again as a plain exception; every other
  exception is logged and raised again as it is.
\<close>

definition convert_with_blender :: "world \<Rightarrow> string \<Rightarrow> job_id \<Rightarrow> string \<Rightarrow> string run" where
  "convert_with_blender w obj_path job_id output_format =
     try_except
       (bind (find_blender_executable w)
          (\<lambda>blender_cmd.
             if blender_cmd = None \<or> blender_cmd = Some [] then
               raise (Exception ''Blender not found in system PATH'')
             else
               let output_path =
                     (if output_format = ''blend'' then output_path_for w job_id ''.blend''
                      else output_path_for w job_id ''.fbx'');
                   script_content = create_blender_script obj_path output_path output_format
               in case temp_script w script_content of
                    Inl e \<Rightarrow> raise e
                  | Inr script_path \<Rightarrow>
                      bind (call (Write_file script_path) (Inr ()))
                        (\<lambda>_. try_finally
                               (let cmd = [the blender_cmd, ''--background'', ''--python'', script_path]
                                in bind (call (Subprocess cmd) (run_blender w cmd))
                                     (\<lambda>(returncode, stderr).
                                        if returncode \<noteq> 0 then
                                          raise (Exception (''Blender conversion failed: '' @ stderr))
                                        else if \<not> output_created w output_path then
                                          raise (Exception ''Output file was not created'')
                                        else ret output_path))
                               [Unlink script_path])))
       (\<lambda>e. case e of
               TimeoutExpired \<Rightarrow> raise (Exception ''Blender conversion timed out'')
             | _ \<Rightarrow> raise e)"

text \<open>
  \<^verbatim>\<open>ExportEngine.export_model\<close> (export\_engine.py) catches whatever its body raises
  and returns \<^verbatim>\<open>False\<close> then.
\<close>

definition export_model :: "world \<Rightarrow> mesh \<Rightarrow> ExportFormat \<Rightarrow> string \<Rightarrow> bool run" where
  "export_model w m fmt output_path =
     try_except (call (Write_file output_path) (engine_export w m fmt output_path))
       (\<lambda>e. ret False)"

text \<open>The body of the first fallback of \<^verbatim>\<open>convert_to_fbx\<close>: the exporter of the mesh library.\<close>

definition trimesh_fbx_export :: "world \<Rightarrow> string \<Rightarrow> job_id \<Rightarrow> string run" where
  "trimesh_fbx_export w obj_path job_id =
     bind (call (Read_file obj_path) (trimesh_load w obj_path))
       (\<lambda>loaded. case loaded of
            None \<Rightarrow> raise (Exception ''Failed to load OBJ file'')
          | Some m \<Rightarrow>
              let output_path = output_path_for w job_id ''.fbx''
              in bind (fbx_exporter_available w m, [])
                   (\<lambda>available.
                      if available then
                        bind (call (Write_file output_path) (mesh_export w m output_path (Some ''fbx'')))
                          (\<lambda>_. ret output_path)
                      else raise (Exception ''FBX exporter not available in trimesh'')))"

text \<open>
  The body of the export-engine fallback. It stands twice in the source, in
  \<^verbatim>\<open>convert_to_fbx\<close> with the format FBX and the extension .fbx, in
  \<^verbatim>\<open>convert_to_blend\<close> with the format RBXM and the extension .blend.
\<close>

definition export_engine_fallback :: "world \<Rightarrow> string \<Rightarrow> job_id \<Rightarrow> ExportFormat \<Rightarrow> string \<Rightarrow> string run" where
  "export_engine_fallback w obj_path job_id fmt ext =
     (if \<not> EXPORT_AVAILABLE w \<or> export_engine_is_None w then
        raise (Exception ''Export engine unavailable'')
      else
        bind (call (Read_file obj_path) (trimesh_load w obj_path))
          (\<lambda>loaded. case loaded of
               None \<Rightarrow> raise (Exception ''Failed to load OBJ file'')
             | Some m \<Rightarrow>
                 let output_path = output_path_for w job_id ext
                 in bind (export_model w m fmt output_path)
                      (\<lambda>success. if success then ret output_path
                                  else raise (Exception ''Export engine failed''))))"

definition convert_to_fbx :: "world \<Rightarrow> string \<Rightarrow> job_id \<Rightarrow> string run" where
  "convert_to_fbx w obj_path job_id =
     try_except
       (try_except (convert_with_blender w obj_path job_id ''fbx'')
          (\<lambda>blender_error.
             try_except (trimesh_fbx_export w obj_path job_id)
               (\<lambda>trimesh_error.
                  try_except (export_engine_fallback w obj_path job_id FBX ''.fbx'')
                    (\<lambda>export_engine_error. ret obj_path))))
       (\<lambda>e. ret obj_path)"

text \<open>\<^verbatim>\<open>convert_to_blend\<close> returns a path or \<^verbatim>\<open>None\<close>.\<close>

definition convert_to_blend :: "world \<Rightarrow> string \<Rightarrow> job_id \<Rightarrow> string option run" where
  "convert_to_blend w obj_path job_id =
     try_except
       (bind (convert_with_blender w obj_path job_id ''blend'') (\<lambda>path. ret (Some path)))
       (\<lambda>e. try_except
               (bind (export_engine_fallback w obj_path job_id RBXM ''.blend'') (\<lambda>path. ret (Some path)))
               (\<lambda>export_engine_error. ret None))"

section \<open>The entry point \<^verbatim>\<open>generate_3d_model\<close> (model\_generator.py)\<close>

text \<open>
  \<^verbatim>\<open>s.replace(old, new)\<close>: every occurrence of \<open>old\<close>, from the left, without overlap.
\<close>

function replace :: "string \<Rightarrow> string \<Rightarrow> string \<Rightarrow> string" where
  "replace old new [] = []"
| "replace old new (c # cs) =
     (if old \<noteq> [] \<and> prefix old (c # cs)
      then new @ replace old new (drop (length old) (c # cs))
      else c # replace old new cs)"
  by pat_completeness auto
termination
  by (relation "measure (\<lambda>(old, new, s). length s)") auto

text \<open>The truth value of an optional job id: \<^verbatim>\<open>None\<close>, 0 and the empty string are false.\<close>

fun truthy_id :: "job_id option \<Rightarrow> bool" where
  "truthy_id None = False"
| "truthy_id (Some (Job_int i)) = (i \<noteq> 0)"
| "truthy_id (Some (Job_str s)) = (s \<noteq> [])"

text \<open>\<^verbatim>\<open>GenerationEngine(engine)\<close>: the member with that value, a \<^verbatim>\<open>ValueError\<close> otherwise.\<close>

definition GenerationEngine_of :: "string \<Rightarrow> exn + GenerationEngine" where
  "GenerationEngine_of v =
     (if v = ''procedural'' then Inr PROCEDURAL
      else if v = ''ai_enhanced'' then Inr AI_ENHANCED
      else if v = ''hybrid'' then Inr HYBRID
      else if v = ''texture_generated'' then Inr TEXTURE_GENERATED
      else Inl (ValueError (v @ '' is not a valid GenerationEngine'')))"

datatype material = Material string string

text \<open>
  The dictionaries two collaborators answer with: of the multimodal processor the keys
  \<^verbatim>\<open>success\<close> and \<^verbatim>\<open>enhanced_prompt\<close>, of the AI service manager the keys
  \<^verbatim>\<open>success\<close> and \<^verbatim>\<open>mesh\<close>; a key may be absent.
\<close>

record multimodal_result =
  mm_success :: bool
  mm_enhanced_prompt :: "string option"

record ai_result =
  ai_success :: bool
  ai_mesh :: "mesh option"

text \<open>
  The collaborators of \<^verbatim>\<open>generate_3d_model\<close>. A field of type \<open>exn + 'a\<close> is a call
  that either raises or returns.
  \<^item> \<open>USE_ADVANCED\<close>: whether the advanced modules were imported; the module-level
    generator, service manager, multimodal processor, export engine and material
    generator exist exactly then;
  \<^item> \<open>windows\<close>: whether \<^verbatim>\<open>os.path.join\<close> puts a backslash;
  \<^item> \<open>reference_exists\<close>: \<^verbatim>\<open>os.path.exists(reference_image_path)\<close>;
  \<^item> \<open>process_text_and_image\<close>, \<open>generate_with_best_service\<close>: the two calls that
    answer with a dictionary, or with nothing;
  \<^item> \<open>available_services\<close>: the number of services \<^verbatim>\<open>get_available_services()\<close> lists;
  \<^item> \<open>advanced_generate_model\<close>: \<^verbatim>\<open>advanced_generator.generate_model\<close>, reduced to
    the mesh under the key \<^verbatim>\<open>mesh\<close> of its answer (\<open>None\<close> when the answer is empty,
    has no such key, or holds \<^verbatim>\<open>None\<close> there: the three cases leave \<^verbatim>\<open>mesh = None\<close>);
  \<^item> \<open>generate_geometry_from_prompt\<close>, \<open>create_default_mesh\<close>: the basic generators;
  \<^item> \<open>generate_material_for_prompt\<close>, \<open>apply_material_to_mesh\<close>,
    \<open>generate_texture_image\<close>, \<open>create_material_file\<close>: the material generator;
  \<^item> \<open>makedirs\<close>: \<^verbatim>\<open>os.makedirs("generated", exist_ok=True)\<close>;
  \<^item> \<open>engine_export_obj\<close>: \<^verbatim>\<open>export_engine.export_model(mesh, ExportFormat.OBJ, path)\<close>;
  \<^item> \<open>direct_export\<close>: \<^verbatim>\<open>mesh.export(path)\<close>;
  \<^item> \<open>py_hash\<close>: \<^verbatim>\<open>hash\<close> on strings; \<open>now\<close>: \<^verbatim>\<open>int(time.time())\<close>.
\<close>

record generator_world =
  USE_ADVANCED :: bool
  windows :: bool
  reference_exists :: "string \<Rightarrow> bool"
  process_text_and_image :: "string \<Rightarrow> string \<Rightarrow> exn + multimodal_result option"
  available_services :: nat
  generate_with_best_service :: "string \<Rightarrow> string option \<Rightarrow> exn + ai_result option"
  advanced_generate_model :: "string \<Rightarrow> GenerationConfig \<Rightarrow> string option \<Rightarrow> exn + mesh option"
  generate_geometry_from_prompt :: "string \<Rightarrow> exn + mesh"
  create_default_mesh :: "exn + mesh"
  generate_material_for_prompt :: "string \<Rightarrow> string \<Rightarrow> exn + material"
  apply_material_to_mesh :: "mesh \<Rightarrow> material \<Rightarrow> exn + mesh"
  generate_texture_image :: "material \<Rightarrow> exn + string option"
  create_material_file :: "material \<Rightarrow> string \<Rightarrow> exn + string"
  makedirs :: "string \<Rightarrow> exn + unit"
  engine_export_obj :: "mesh \<Rightarrow> string \<Rightarrow> exn + bool"
  direct_export :: "mesh \<Rightarrow> string \<Rightarrow> exn + unit"
  py_hash :: "string \<Rightarrow> int"
  now :: int

text \<open>
  The arguments \<^verbatim>\<open>engine\<close>, \<^verbatim>\<open>complexity\<close>, \<^verbatim>\<open>detail_level\<close> and
  \<^verbatim>\<open>material_style\<close> are written \<open>engine_name\<close>, \<open>complexity_arg\<close>,
  \<open>detail_level_arg\<close> and \<open>style_arg\<close>, the plain names being the fields of
  \<^typ>\<open>GenerationConfig\<close>.

  The function is one \<^verbatim>\<open>try\<close> block in five parts, set apart by its comments; each
  part is a definition here. First, the multimodal input: a better prompt when there
  is a reference image and the processor succeeds, the prompt itself in every other
  case, also when the processor raises.
\<close>

definition multimodal_input :: "generator_world \<Rightarrow> string \<Rightarrow> string option \<Rightarrow> string" where
  "multimodal_input gw prompt reference_image_path =
     (if USE_ADVANCED gw \<and> reference_image_path \<noteq> None \<and> reference_image_path \<noteq> Some []
         \<and> reference_exists gw (the reference_image_path)
      then case process_text_and_image gw prompt (the reference_image_path) of
             Inl e \<Rightarrow> prompt
           | Inr None \<Rightarrow> prompt
           | Inr (Some multimodal_result) \<Rightarrow>
               if mm_success multimodal_result
               then (case mm_enhanced_prompt multimodal_result of None \<Rightarrow> prompt | Some p \<Rightarrow> p)
               else prompt
      else prompt)"

text \<open>
  Second, the AI-powered generation, tried for the engine \<^verbatim>\<open>ai_enhanced\<close> when a
  service is configured; an exception is logged and leaves \<^verbatim>\<open>mesh = None\<close>.
\<close>

definition ai_powered_generation ::
  "generator_world \<Rightarrow> string \<Rightarrow> string \<Rightarrow> string option \<Rightarrow> mesh option" where
  "ai_powered_generation gw engine_name enhanced_prompt reference_image_path =
     (if USE_ADVANCED gw \<and> engine_name = ''ai_enhanced'' \<and> available_services gw \<noteq> 0
      then case generate_with_best_service gw enhanced_prompt reference_image_path of
             Inl e \<Rightarrow> None
           | Inr None \<Rightarrow> None
           | Inr (Some ai_result) \<Rightarrow> if ai_success ai_result then ai_mesh ai_result else None
      else None)"

text \<open>
  Third, the fallback generation, when there is no mesh yet. With the advanced
  modules, whatever the advanced generator raises leaves \<^verbatim>\<open>mesh = None\<close>. Without
  them, the basic generator is called; when it raises, the default mesh is made, in
  the handler: what that raises escapes.
\<close>

definition fallback_generation ::
  "generator_world \<Rightarrow> string \<Rightarrow> string option \<Rightarrow> job_id option \<Rightarrow> string \<Rightarrow> int \<Rightarrow> int
     \<Rightarrow> string \<Rightarrow> mesh option run" where
  "fallback_generation gw prompt reference_image_path job_id engine_name complexity_arg detail_level_arg
       style_arg =
     try_except
       (if USE_ADVANCED gw then
          try_except
            (bind (GenerationEngine_of engine_name, [])
               (\<lambda>generation_engine.
                  let config =
                        \<lparr>engine = generation_engine,
                         complexity = complexity_arg,
                         detail_level = detail_level_arg,
                         material_style = style_arg,
                         generate_textures = True,
                         generate_materials = True,
                         variations = 1,
                         seed = (if truthy_id job_id then Some (now gw) else None)\<rparr>
                  in (advanced_generate_model gw prompt config reference_image_path, [])))
            (\<lambda>e. ret None)
        else
          bind (generate_geometry_from_prompt gw prompt, []) (\<lambda>m. ret (Some m)))
       (\<lambda>e. bind (create_default_mesh gw, []) (\<lambda>m. ret (Some m)))"

text \<open>
  Fourth, material and texture. Every failure is logged and passed over; the mesh is
  the one with the material applied as soon as that call has returned, whatever the
  texture image and the material file do after it.
\<close>

definition material_filename :: "generator_world \<Rightarrow> string \<Rightarrow> job_id option \<Rightarrow> string" where
  "material_filename gw prompt job_id =
     (if truthy_id job_id then ''model_'' @ py_str (the job_id) @ ''_material''
      else ''model_'' @ str_of_int (py_hash gw prompt) @ ''_material'')"

definition apply_material_and_texture ::
  "generator_world \<Rightarrow> mesh \<Rightarrow> string \<Rightarrow> string \<Rightarrow> job_id option \<Rightarrow> mesh" where
  "apply_material_and_texture gw m prompt style_arg job_id =
     (if USE_ADVANCED gw
      then case generate_material_for_prompt gw prompt style_arg of
             Inl e \<Rightarrow> m
           | Inr material \<Rightarrow>
               (case apply_material_to_mesh gw m material of
                  Inl e \<Rightarrow> m
                | Inr m' \<Rightarrow>
                    let texture_path =
                          (case generate_texture_image gw material of
                             Inl e \<Rightarrow> None
                           | Inr path \<Rightarrow> path)
                    in case create_material_file gw material (material_filename gw prompt job_id) of
                         Inl e \<Rightarrow> m'
                       | Inr mtl_path \<Rightarrow> m')
      else m)"

text \<open>
  Fifth, saving. The path is in the output directory, or the bare file name when
  that directory cannot be made. The export engine first, when there is one; then the export of the
  mesh library to the same path; then that export to the path with \<^verbatim>\<open>.obj\<close>
  replaced by \<^verbatim>\<open>.stl\<close>. Only when the last one raises too does an exception escape.
\<close>

definition obj_filename :: "generator_world \<Rightarrow> string \<Rightarrow> job_id option \<Rightarrow> string" where
  "obj_filename gw prompt job_id =
     (if truthy_id job_id then ''model_'' @ py_str (the job_id) @ ''.obj''
      else ''model_'' @ str_of_int (py_hash gw prompt) @ ''.obj'')"

definition obj_output_path :: "generator_world \<Rightarrow> string \<Rightarrow> job_id option \<Rightarrow> string" where
  "obj_output_path gw prompt job_id =
     (let output_filename = obj_filename gw prompt job_id;
          output_path = ''generated'' @ [if windows gw then CHR 0x5C else CHR ''/''] @ output_filename
      in case makedirs gw ''generated'' of
           Inl e \<Rightarrow> output_filename
         | Inr _ \<Rightarrow> output_path)"

definition save_as_obj :: "generator_world \<Rightarrow> mesh \<Rightarrow> string \<Rightarrow> job_id option \<Rightarrow> string run" where
  "save_as_obj gw m prompt job_id =
     (let output_path = obj_output_path gw prompt job_id;
          export_success =
            (USE_ADVANCED gw \<and>
               (case engine_export_obj gw m output_path of
                  Inl e \<Rightarrow> False
                | Inr exported \<Rightarrow> exported))
      in if export_success then ret output_path
         else
           try_except
             (bind (call (Write_file output_path) (direct_export gw m output_path))
                (\<lambda>_. ret output_path))
             (\<lambda>e. let stl_path = replace ''.obj'' ''.stl'' output_path
                   in try_except
                        (bind (call (Write_file stl_path) (direct_export gw m stl_path))
                           (\<lambda>_. ret stl_path))
                        (\<lambda>e2. raise (Exception (''All export methods failed. OBJ: '' @ str_of_exn e
                                                  @ '', STL: '' @ str_of_exn e2)))))"

definition valid_styles :: "string list" where
  "valid_styles = [''realistic'', ''stylized'', ''low_poly'', ''sci_fi'', ''fantasy'', ''cartoon'']"

definition valid_engines :: "string list" where
  "valid_engines = [''procedural'', ''ai_enhanced'', ''hybrid'', ''texture_generated'']"

text \<open>
  The first three parts together give the mesh, if any.
\<close>

definition generate_mesh ::
  "generator_world \<Rightarrow> string \<Rightarrow> string option \<Rightarrow> job_id option \<Rightarrow> string \<Rightarrow> int \<Rightarrow> int
     \<Rightarrow> string \<Rightarrow> mesh option run" where
  "generate_mesh gw prompt reference_image_path job_id engine_name complexity_arg detail_level_arg
       style_arg =
     (let enhanced = multimodal_input gw prompt reference_image_path;
          mesh = ai_powered_generation gw engine_name enhanced reference_image_path
      in if mesh = None
         then fallback_generation gw prompt reference_image_path job_id engine_name complexity_arg
                detail_level_arg style_arg
         else ret mesh)"

text \<open>
  The body of the \<^verbatim>\<open>try\<close> block, on the validated arguments: without a mesh an
  exception is raised; with one, the material is applied and the mesh is saved.
\<close>

definition generate_3d_model_body ::
  "generator_world \<Rightarrow> string \<Rightarrow> string option \<Rightarrow> job_id option \<Rightarrow> string \<Rightarrow> int \<Rightarrow> int
     \<Rightarrow> string \<Rightarrow> string run" where
  "generate_3d_model_body gw prompt reference_image_path job_id engine_name complexity_arg detail_level_arg
       style_arg =
     bind (generate_mesh gw prompt reference_image_path job_id engine_name complexity_arg
             detail_level_arg style_arg)
       (\<lambda>mesh. case mesh of
            None \<Rightarrow> raise (Exception ''Failed to generate 3D geometry'')
          | Some m \<Rightarrow>
              let m = apply_material_and_texture gw m prompt style_arg job_id
              in save_as_obj gw m prompt job_id)"

text \<open>
  \<^verbatim>\<open>generate_3d_model\<close>: the validation of the arguments, then the \<^verbatim>\<open>try\<close> block,
  whose handler raises a new exception with the message of the one caught.
\<close>

definition generate_3d_model ::
  "generator_world \<Rightarrow> string \<Rightarrow> string option \<Rightarrow> job_id option \<Rightarrow> string \<Rightarrow> int \<Rightarrow> int
     \<Rightarrow> string \<Rightarrow> string run" where
  "generate_3d_model gw prompt reference_image_path job_id engine_name complexity_arg detail_level_arg
       style_arg =
     (if prompt = [] \<or> length (strip prompt) = 0 then raise (ValueError ''Prompt cannot be empty'')
      else
        let prompt = take 500 (strip prompt);
            complexity_arg = max 1 (min 10 complexity_arg);
            detail_level_arg = max 1 (min 10 detail_level_arg);
            style_arg =
              (if style_arg \<notin> set valid_styles then ''realistic'' else style_arg);
            engine_name = (if engine_name \<notin> set valid_engines then ''hybrid'' else engine_name)
        in try_except
             (generate_3d_model_body gw prompt reference_image_path job_id engine_name complexity_arg
                detail_level_arg style_arg)
             (\<lambda>e. raise (Exception (''3D model generation failed: '' @ str_of_exn e))))"

section \<open>The asynchronous generation task (tasks.py, models.py)\<close>

text \<open>
  The columns of a \<^verbatim>\<open>GenerationJob\<close> row that the task reads or writes, each with
  the prefix \<open>job_\<close>. A new row has the status \<^verbatim>\<open>pending\<close>, the default of the
  column, and nothing in the other columns.
\<close>

record GenerationJob =
  job_status :: string
  job_obj_path :: "string option"
  job_fbx_path :: "string option"
  job_blend_path :: "string option"
  job_error_message :: "string option"
  job_task_id :: "string option"
  job_completed_at :: "int option"


text \<open>
  The tables the task touches: the job rows by identifier, the rows of the asset
  cache in the order of their creation (cache key and file path), and the jobs
  attached to each project.
\<close>

record tables =
  jobs :: "int \<rightharpoonup> GenerationJob"
  asset_cache :: "(string \<times> string) list"
  project_assets :: "int \<rightharpoonup> int list"

text \<open>
  The state the task works on. An assignment to a column changes the object held by
  the session; a \<^verbatim>\<open>db.session.commit()\<close> that goes through makes the database
  what the session holds. \<open>progress_log\<close> holds the states that reached the task
  queue (state name and percentage). \<open>status_log\<close> records every assignment to the
  status of a job, in order.
\<close>

record task_state =
  session :: tables
  database :: tables
  progress_log :: "(string \<times> nat) list"
  status_log :: "(int \<times> string) list"

text \<open>
  The calls to the database and to the task queue, one name for each place of the
  source where one stands. Those of the first three lines stand in the \<^verbatim>\<open>try\<close>
  block, those of the last line in its handler.
\<close>

datatype step =
    Query_job | Read_task_id | Commit_processing
  | Report_progress nat | Query_cache | Make_cache_entry | Add_cache_entry
  | Query_project | Append_asset | Commit_completed | Report_success
  | Handler_query_job | Handler_commit | Report_failure

text \<open>
  What the task takes from outside: the collaborators of \<^verbatim>\<open>generate_3d_model\<close> and
  of the converters, the identifier of the running task, the clock, whether a cached
  file is still there, and, for each call to the database or the task queue, the
  exception it raises, when it raises one.
\<close>

record task_world =
  gen_world :: generator_world
  conv_world :: world
  current_task_id :: string
  utcnow :: int
  cached_file_exists :: "string \<Rightarrow> bool"
  fails :: "step \<Rightarrow> exn option"


text \<open>
  A piece of the task takes the state and gives an outcome, an exception or a value,
  with the state it leaves.
\<close>

type_synonym 'a task = "task_state \<Rightarrow> (exn + 'a) \<times> task_state"

definition treturn :: "'a \<Rightarrow> 'a task" where
  "treturn v = (\<lambda>st. (Inr v, st))"

definition traise :: "exn \<Rightarrow> 'a task" where
  "traise e = (\<lambda>st. (Inl e, st))"


definition reading :: "(task_state \<Rightarrow> 'a) \<Rightarrow> 'a task" where
  "reading f = (\<lambda>st. (Inr (f st), st))"

definition modify :: "(task_state \<Rightarrow> task_state) \<Rightarrow> unit task" where
  "modify f = (\<lambda>st. (Inr (), f st))"

text \<open>A call to a function of the repository: its outcome, the state as it is.\<close>

definition calling :: "exn + 'a \<Rightarrow> 'a task" where
  "calling outcome = (\<lambda>st. (outcome, st))"

text \<open>
  A call to the database or the task queue: it raises, or goes through and leaves
  its effect to what follows.
\<close>

definition attempt :: "task_world \<Rightarrow> step \<Rightarrow> unit task" where
  "attempt tw s = (case fails tw s of Some e \<Rightarrow> traise e | None \<Rightarrow> treturn ())"


















section \<open>Notions used to state the properties\<close>


text \<open>
  The fallback chain as the specification words it: an ordered list of strategies,
  each one returning a path or failing, tried in order up to the first success; when
  every one fails the fallback value is returned.
\<close>

fun spec_fallback_chain :: "'a run list \<Rightarrow> 'a \<Rightarrow> 'a run" where
  "spec_fallback_chain [] fallback = ret fallback"
| "spec_fallback_chain (tier # tiers) fallback =
     try_except tier (\<lambda>e. spec_fallback_chain tiers fallback)"


subsection \<open>Concrete inputs\<close>

text \<open>
  A machine with nothing installed: no Blender on the path or at a usual place, a
  mesh library that loads the file but has no FBX exporter, and no export engine.
\<close>

definition bare_world :: world where
  "bare_world =
     \<lparr>platform_windows = False,
      which = (\<lambda>name. Inr (1, [])),
      path_exists = (\<lambda>path. False),
      temp_script = (\<lambda>script. Inl (Other_error ''no temporary directory'')),
      run_blender = (\<lambda>cmd. Inl (Other_error ''no such file'')),
      output_created = (\<lambda>path. False),
      trimesh_load = (\<lambda>path. Inr (Some (Loaded path))),
      fbx_exporter_available = (\<lambda>m. Inl (Other_error ''no attribute exporters_available'')),
      mesh_export = (\<lambda>m path file_type. Inl (ValueError ''unsupported file type'')),
      EXPORT_AVAILABLE = False,
      export_engine_is_None = True,
      engine_export = (\<lambda>m fmt path. Inr False)\<rparr>"




text \<open>The bare machine with a working export engine.\<close>

definition engine_world :: world where
  "engine_world =
     bare_world\<lparr>EXPORT_AVAILABLE := True,
                export_engine_is_None := False,
                engine_export := (\<lambda>m fmt path. Inr True)\<rparr>"

text \<open>
  A process with the advanced modules, no AI service, and an advanced generator that
  gives a box for every request; the export engine declines and the mesh library
  exports.
\<close>

definition studio_world :: generator_world where
  "studio_world =
     \<lparr>USE_ADVANCED = True,
      windows = False,
      reference_exists = (\<lambda>path. False),
      process_text_and_image = (\<lambda>prompt path. Inr None),
      available_services = 0,
      generate_with_best_service = (\<lambda>prompt path. Inr None),
      advanced_generate_model = (\<lambda>prompt config path. Inr (Some (Box 1 1 1))),
      generate_geometry_from_prompt = (\<lambda>prompt. Inr (Box 2 2 2)),
      create_default_mesh = Inr (Box 2 2 2),
      generate_material_for_prompt = (\<lambda>prompt style_name. Inl (Other_error ''no material'')),
      apply_material_to_mesh = (\<lambda>m material. Inr m),
      generate_texture_image = (\<lambda>material. Inl (Other_error ''no texture'')),
      create_material_file = (\<lambda>material name. Inl (Other_error ''read-only directory'')),
      makedirs = (\<lambda>path. Inr ()),
      engine_export_obj = (\<lambda>m path. Inr False),
      direct_export = (\<lambda>m path. Inr ()),
      py_hash = (\<lambda>s. 0),
      now = 0\<rparr>"


text \<open>
  The same process with a reference image that exists, a multimodal processor and an
  AI service that raise, and an output directory that cannot be made.
\<close>

definition failing_studio_world :: generator_world where
  "failing_studio_world =
     studio_world\<lparr>reference_exists := (\<lambda>path. True),
                  process_text_and_image := (\<lambda>prompt path. Inl (Other_error ''no model loaded'')),
                  available_services := 1,
                  generate_with_best_service := (\<lambda>prompt path. Inl (Other_error ''connection refused'')),
                  makedirs := (\<lambda>path. Inl (Other_error ''permission denied''))\<rparr>"








section \<open>Properties of the prompt classifier\<close>

lemma count_present_card:
  "distinct ws \<Longrightarrow> count_present ws pl = int (card {w \<in> set ws. sublist w pl})"
proof -
  assume d: "distinct ws"
  have "count_present ws pl = int (length (filter (\<lambda>w. sublist w pl) ws))"
    unfolding count_present_def by (induction ws) auto
  also have "\<dots> = int (card ({w. sublist w pl} \<inter> set ws))"
    using d by (simp add: distinct_length_filter)
  also have "{w. sublist w pl} \<inter> set ws = {w \<in> set ws. sublist w pl}" by auto
  finally show ?thesis .
qed

lemma distinct_detail_words: "distinct detail_words"
  by (simp add: detail_words_def)

lemma distinct_simple_words: "distinct simple_words"
  by (simp add: simple_words_def)

text \<open>
  Claim C7. For every prompt, the complexity estimate of the classifier is 5 plus the
  number of detail words that occur in the lower-cased prompt, minus the number of
  simplicity words that occur in it, clamped to the interval from 1 to 10.
\<close>

theorem estimate_complexity_formula:
  "estimate_complexity prompt =
     max 1 (min 10 (5 + int (card {w \<in> set detail_words. sublist w (lower prompt)})
                      - int (card {w \<in> set simple_words. sublist w (lower prompt)})))
   \<and> 1 \<le> estimate_complexity prompt \<and> estimate_complexity prompt \<le> 10"
proof -
  have eq: "estimate_complexity prompt =
     max 1 (min 10 (5 + count_present detail_words (lower prompt)
                      - count_present simple_words (lower prompt)))"
    by (simp add: estimate_complexity_def Let_def)
  have "1 \<le> estimate_complexity prompt" "estimate_complexity prompt \<le> 10"
    unfolding eq by simp_all
  moreover note eq [unfolded count_present_card [OF distinct_detail_words]
                      count_present_card [OF distinct_simple_words]]
  ultimately show ?thesis by blast
qed

lemma detect_find:
  "detect d tbl pl =
     (case find (\<lambda>(c, ks). \<exists>k\<in>set ks. sublist k pl) tbl of None \<Rightarrow> d | Some (c, ks) \<Rightarrow> c)"
  by (induction d tbl pl rule: detect.induct) (auto simp: any_keyword_in_def list_ex_iff)

lemma detect_range: "detect d tbl pl \<in> insert d (fst ` set tbl)"
  by (induction d tbl pl rule: detect.induct) auto

lemma detect_default:
  "\<forall>(c, ks)\<in>set tbl. \<forall>k\<in>set ks. \<not> sublist k pl \<Longrightarrow> detect d tbl pl = d"
  by (induction d tbl pl rule: detect.induct) (auto simp: any_keyword_in_def list_ex_iff)

lemma shape_type_analyze: "shape_type (analyze_prompt p) = detect ''abstract'' shape_types (lower p)"
  by (simp add: analyze_prompt_def Let_def)

lemma style_analyze: "style (analyze_prompt p) = detect ''realistic'' styles (lower p)"
  by (simp add: analyze_prompt_def Let_def)

lemma size_analyze: "size (analyze_prompt p) = detect ''normal'' size_keywords (lower p)"
  by (simp add: analyze_prompt_def Let_def)

lemma orb_example: "shape_type (analyze_prompt ''a glowing orb of light'') = ''abstract''"
  by code_simp

lemma car_example: "shape_type (analyze_prompt ''red sports car'') = ''vehicle''"
  by code_simp

lemma shape_names:
  "fst ` set shape_types =
     {''vehicle'', ''building'', ''furniture'', ''character'', ''weapon'', ''nature'', ''abstract''}"
  by (simp add: shape_types_def)

text \<open>
  Claim C3. For every prompt, \<^verbatim>\<open>_analyze_prompt\<close> returns one shape type out of
  vehicle, building, furniture, character, weapon, nature and abstract: the first
  category, in the order of the dictionary, one of whose keywords is a substring of the
  lower-cased prompt, and abstract when there is none. When no keyword of a table
  matches, the default of that table is returned: abstract for the shape, realistic for
  the style, normal for the size. The function is total: it returns for every string.
  "a glowing orb of light" is abstract and "red sports car" is a vehicle.
\<close>

theorem analyze_prompt_classification:
  "shape_type (analyze_prompt prompt) \<in>
     {''vehicle'', ''building'', ''furniture'', ''character'', ''weapon'', ''nature'', ''abstract''}
   \<and> shape_type (analyze_prompt prompt) =
       (case find (\<lambda>(category, keywords). \<exists>keyword\<in>set keywords. sublist keyword (lower prompt))
               shape_types of
          None \<Rightarrow> ''abstract''
        | Some (category, keywords) \<Rightarrow> category)
   \<and> ((\<forall>(category, keywords)\<in>set shape_types. \<forall>keyword\<in>set keywords. \<not> sublist keyword (lower prompt))
        \<longrightarrow> shape_type (analyze_prompt prompt) = ''abstract'')
   \<and> ((\<forall>(name, keywords)\<in>set styles. \<forall>keyword\<in>set keywords. \<not> sublist keyword (lower prompt))
        \<longrightarrow> style (analyze_prompt prompt) = ''realistic'')
   \<and> ((\<forall>(name, keywords)\<in>set size_keywords. \<forall>keyword\<in>set keywords. \<not> sublist keyword (lower prompt))
        \<longrightarrow> size (analyze_prompt prompt) = ''normal'')
   \<and> shape_type (analyze_prompt ''a glowing orb of light'') = ''abstract''
   \<and> shape_type (analyze_prompt ''red sports car'') = ''vehicle''"
proof (intro conjI impI)
  show "shape_type (analyze_prompt prompt) \<in>
     {''vehicle'', ''building'', ''furniture'', ''character'', ''weapon'', ''nature'', ''abstract''}"
    using detect_range [of "''abstract''" shape_types "lower prompt"]
    unfolding shape_type_analyze shape_names by blast
next
  show "shape_type (analyze_prompt prompt) =
       (case find (\<lambda>(category, keywords). \<exists>keyword\<in>set keywords. sublist keyword (lower prompt))
               shape_types of
          None \<Rightarrow> ''abstract''
        | Some (category, keywords) \<Rightarrow> category)"
    unfolding shape_type_analyze by (rule detect_find)
next
  assume "\<forall>(category, keywords)\<in>set shape_types. \<forall>keyword\<in>set keywords. \<not> sublist keyword (lower prompt)"
  then show "shape_type (analyze_prompt prompt) = ''abstract''"
    unfolding shape_type_analyze by (rule detect_default)
next
  assume "\<forall>(name, keywords)\<in>set styles. \<forall>keyword\<in>set keywords. \<not> sublist keyword (lower prompt)"
  then show "style (analyze_prompt prompt) = ''realistic''"
    unfolding style_analyze by (rule detect_default)
next
  assume "\<forall>(name, keywords)\<in>set size_keywords. \<forall>keyword\<in>set keywords. \<not> sublist keyword (lower prompt)"
  then show "size (analyze_prompt prompt) = ''normal''"
    unfolding size_analyze by (rule detect_default)
next
  show "shape_type (analyze_prompt ''a glowing orb of light'') = ''abstract''" by (rule orb_example)
next
  show "shape_type (analyze_prompt ''red sports car'') = ''vehicle''" by (rule car_example)
qed

theorem analyze_prompt_classification_witness:
  "shape_type (analyze_prompt ''a glowing orb of light'') = ''abstract''
   \<and> style (analyze_prompt ''a glowing orb of light'') = ''realistic''
   \<and> size (analyze_prompt ''a glowing orb of light'') = ''normal''"
proof -
  have h1: "\<forall>(category, keywords)\<in>set shape_types. \<forall>keyword\<in>set keywords.
              \<not> sublist keyword (lower ''a glowing orb of light'')"
    by code_simp
  have h2: "\<forall>(name, keywords)\<in>set styles. \<forall>keyword\<in>set keywords.
              \<not> sublist keyword (lower ''a glowing orb of light'')"
    by code_simp
  have h3: "\<forall>(name, keywords)\<in>set size_keywords. \<forall>keyword\<in>set keywords.
              \<not> sublist keyword (lower ''a glowing orb of light'')"
    by code_simp
  from analyze_prompt_classification [of "''a glowing orb of light''"] h1 h2 h3
  show ?thesis by blast
qed

section \<open>Properties of the detail injection\<close>





















section \<open>Properties of the format converters\<close>

lemma fst_ret [simp]: "fst (ret v) = Inr v" by (simp add: ret_def)
lemma snd_ret [simp]: "snd (ret v) = []" by (simp add: ret_def)
lemma fst_raise [simp]: "fst (raise e) = Inl e" by (simp add: raise_def)
lemma snd_raise [simp]: "snd (raise e) = []" by (simp add: raise_def)
lemma fst_call [simp]: "fst (call ev outcome) = outcome" by (simp add: call_def)
lemma snd_call [simp]: "snd (call ev outcome) = [ev]" by (simp add: call_def)

lemma fst_try_except:
  "fst (try_except m h) = (case fst m of Inl e \<Rightarrow> fst (h e) | Inr v \<Rightarrow> Inr v)"
  by (simp add: try_except_def split: prod.splits sum.splits)

lemma snd_try_except:
  "snd (try_except m h) = (case fst m of Inl e \<Rightarrow> snd m @ snd (h e) | Inr v \<Rightarrow> snd m)"
  by (simp add: try_except_def split: prod.splits sum.splits)

lemma fst_bind:
  "fst (bind m f) = (case fst m of Inl e \<Rightarrow> Inl e | Inr v \<Rightarrow> fst (f v))"
  by (simp add: bind_def split: prod.splits sum.splits)

lemma snd_bind:
  "snd (bind m f) = (case fst m of Inl e \<Rightarrow> snd m | Inr v \<Rightarrow> snd m @ snd (f v))"
  by (simp add: bind_def split: prod.splits sum.splits)

lemma fst_try_finally [simp]: "fst (try_finally m cleanup) = fst m"
  by (simp add: try_finally_def split: prod.splits)

lemma snd_try_finally [simp]: "snd (try_finally m cleanup) = snd m @ cleanup"
  by (simp add: try_finally_def split: prod.splits)

lemma try_except_returns: "\<not> isl (fst m) \<Longrightarrow> try_except m h = m"
  by (cases m) (auto simp: try_except_def split: sum.splits)

lemma spec_fallback_chain_returns: "\<not> isl (fst (spec_fallback_chain tiers fallback))"
  by (induction tiers) (auto simp: fst_try_except split: sum.splits)

lemma written_paths_append [simp]: "written_paths (a @ b) = written_paths a @ written_paths b"
  by (simp add: written_paths_def)

lemma written_paths_simps [simp]:
  "written_paths [] = []"
  "written_paths (Write_file p # evs) = p # written_paths evs"
  "written_paths (Subprocess cmd # evs) = written_paths evs"
  "written_paths (Read_file p # evs) = written_paths evs"
  "written_paths (Unlink p # evs) = written_paths evs"
  by (simp_all add: written_paths_def)

lemma ask_system_path_events:
  "snd (ask_system_path w name) = [Subprocess [if platform_windows w then ''where'' else ''which'', name]]"
proof (cases "which w name")
  case (Inl e)
  then show ?thesis
    by (simp add: ask_system_path_def Let_def snd_try_except fst_bind snd_bind)
next
  case (Inr r)
  then show ?thesis
    by (cases r) (simp add: ask_system_path_def Let_def snd_try_except fst_bind snd_bind)
qed

lemma ask_system_path_returns: "\<not> isl (fst (ask_system_path w name))"
proof (cases "which w name")
  case (Inl e)
  then show ?thesis
    by (simp add: ask_system_path_def Let_def fst_try_except fst_bind)
next
  case (Inr r)
  then show ?thesis
    by (cases r) (simp add: ask_system_path_def Let_def fst_try_except fst_bind)
qed

lemma search_system_path_writes: "written_paths (snd (search_system_path w names)) = []"
proof (induction names)
  case Nil
  show ?case by simp
next
  case (Cons name names)
  show ?case
  proof (cases "fst (ask_system_path w name)")
    case (Inl e)
    then show ?thesis by (simp add: snd_bind ask_system_path_events)
  next
    case (Inr found)
    then show ?thesis
      using Cons.IH by (cases found) (simp_all add: snd_bind ask_system_path_events)
  qed
qed

lemma search_system_path_returns: "\<not> isl (fst (search_system_path w names))"
proof (induction names)
  case Nil
  show ?case by simp
next
  case (Cons name names)
  show ?case
  proof (cases "fst (ask_system_path w name)")
    case (Inl e)
    with ask_system_path_returns [of w name] show ?thesis by simp
  next
    case (Inr found)
    then show ?thesis
      using Cons.IH by (cases found) (simp_all add: fst_bind)
  qed
qed

lemma find_blender_executable_writes: "written_paths (snd (find_blender_executable w)) = []"
proof (cases "fst (search_system_path w [''blender'', ''blender3d''])")
  case (Inl e)
  then show ?thesis
    using search_system_path_writes [of w "[''blender'', ''blender3d'']"]
    by (simp add: find_blender_executable_def Let_def snd_bind del: search_system_path.simps)
next
  case (Inr found)
  then show ?thesis
    using search_system_path_writes [of w "[''blender'', ''blender3d'']"]
    by (cases found) (simp_all add: find_blender_executable_def Let_def snd_bind del: search_system_path.simps)
qed

lemma convert_with_blender_value:
  assumes "fst (convert_with_blender w obj_path job_id fmt) = Inr p"
  shows "p = output_path_for w job_id (if fmt = ''blend'' then ''.blend'' else ''.fbx'')"
  using assms
  by (simp add: convert_with_blender_def fst_try_except fst_bind Let_def
           split: sum.splits if_splits prod.splits exn.splits option.splits)

lemma export_engine_fallback_value:
  assumes "fst (export_engine_fallback w obj_path job_id fmt ext) = Inr p"
  shows "p = output_path_for w job_id ext"
  using assms
  by (simp add: export_engine_fallback_def fst_bind Let_def
           split: sum.splits if_splits prod.splits option.splits)

lemma blender_not_found:
  assumes "fst (find_blender_executable w) = Inr None"
  shows "fst (convert_with_blender w obj_path job_id fmt) = Inl (Exception ''Blender not found in system PATH'')"
    and "snd (convert_with_blender w obj_path job_id fmt) = snd (find_blender_executable w)"
  using assms by (simp_all add: convert_with_blender_def fst_try_except snd_try_except fst_bind snd_bind)

lemma trimesh_fbx_export_writes:
  "set (written_paths (snd (trimesh_fbx_export w obj_path job_id))) \<subseteq> {output_path_for w job_id ''.fbx''}"
proof (cases "trimesh_load w obj_path")
  case (Inl e)
  then show ?thesis by (simp add: trimesh_fbx_export_def snd_bind)
next
  case (Inr loaded)
  show ?thesis
  proof (cases loaded)
    case None
    with Inr show ?thesis by (simp add: trimesh_fbx_export_def snd_bind)
  next
    case (Some m)
    show ?thesis
    proof (cases "fbx_exporter_available w m")
      case (Inl e)
      with Inr Some show ?thesis by (simp add: trimesh_fbx_export_def snd_bind fst_bind Let_def)
    next
      case avail: (Inr available)
      with Inr Some show ?thesis
        by (cases "mesh_export w m (output_path_for w job_id ''.fbx'') (Some ''fbx'')")
           (simp_all add: trimesh_fbx_export_def snd_bind fst_bind Let_def)
    qed
  qed
qed

lemma export_model_events: "snd (export_model w m fmt path) = [Write_file path]"
  by (cases "engine_export w m fmt path") (simp_all add: export_model_def snd_try_except)

lemma export_engine_fallback_writes:
  "set (written_paths (snd (export_engine_fallback w obj_path job_id fmt ext))) \<subseteq> {output_path_for w job_id ext}"
proof (cases "\<not> EXPORT_AVAILABLE w \<or> export_engine_is_None w")
  case True
  then show ?thesis by (auto simp: export_engine_fallback_def)
next
  case False
  show ?thesis
  proof (cases "trimesh_load w obj_path")
    case (Inl e)
    with False show ?thesis by (simp add: export_engine_fallback_def snd_bind)
  next
    case (Inr loaded)
    show ?thesis
    proof (cases loaded)
      case None
      with False Inr show ?thesis by (simp add: export_engine_fallback_def snd_bind)
    next
      case (Some m)
      with False Inr show ?thesis
        by (cases "fst (export_model w m fmt (output_path_for w job_id ext))")
           (simp_all add: export_engine_fallback_def snd_bind fst_bind Let_def export_model_events)
    qed
  qed
qed

text \<open>
  Claim C1, as amended. \<^verbatim>\<open>convert_to_blend\<close> never raises, for every path, job id and
  behaviour of its collaborators. It returns the path of the .blend file when the
  Blender tier or the export-engine tier succeeds, and \<^verbatim>\<open>None\<close> when both fail.
\<close>

theorem convert_to_blend_result:
  "fst (convert_to_blend w obj_path job_id) =
     (if isl (fst (convert_with_blender w obj_path job_id ''blend''))
         \<and> isl (fst (export_engine_fallback w obj_path job_id RBXM ''.blend''))
      then Inr None
      else Inr (Some (output_path_for w job_id ''.blend'')))"
proof (cases "fst (convert_with_blender w obj_path job_id ''blend'')")
  case (Inr p)
  with convert_with_blender_value [OF Inr] show ?thesis
    by (simp add: convert_to_blend_def fst_try_except fst_bind)
next
  case (Inl e)
  show ?thesis
  proof (cases "fst (export_engine_fallback w obj_path job_id RBXM ''.blend'')")
    case (Inr p)
    with Inl export_engine_fallback_value [OF Inr] show ?thesis
      by (simp add: convert_to_blend_def fst_try_except fst_bind)
  next
    case Inl2: (Inl e2)
    with Inl show ?thesis
      by (simp add: convert_to_blend_def fst_try_except fst_bind)
  qed
qed

theorem convert_to_blend_result_witness:
  "fst (convert_to_blend engine_world ''generated/model_7.obj'' (Job_int 7))
     = Inr (Some ''generated/model_7.blend'')"
proof -
  have c: "\<not> isl (fst (export_engine_fallback engine_world ''generated/model_7.obj'' (Job_int 7)
                          RBXM ''.blend''))"
    by code_simp
  have p: "output_path_for engine_world (Job_int 7) ''.blend'' = ''generated/model_7.blend''"
    by code_simp
  from convert_to_blend_result [of engine_world "''generated/model_7.obj''" "Job_int 7"] c
  show ?thesis unfolding p by simp
qed

text \<open>
  The claim as stated fails: on a machine with no Blender and no export engine
  \<^verbatim>\<open>convert_to_blend\<close> returns \<^verbatim>\<open>None\<close>, which is not a path.
\<close>

theorem convert_to_blend_none_counterexample:
  "fst (convert_to_blend bare_world ''generated/model_7.obj'' (Job_int 7)) = Inr None"
  by code_simp




text \<open>
  Claim C4. \<^verbatim>\<open>convert_to_fbx\<close> never raises. When no Blender executable is found and
  the exporter of the mesh library and the export engine both fail, it returns the
  path of the OBJ file it was given, and the only path it has written to, or handed
  to a collaborator to write to, is that of the FBX file in the output directory.
\<close>

theorem convert_to_fbx_degrades_to_obj:
  "\<not> isl (fst (convert_to_fbx w obj_path job_id))
   \<and> (fst (find_blender_executable w) = Inr None
        \<and> isl (fst (trimesh_fbx_export w obj_path job_id))
        \<and> isl (fst (export_engine_fallback w obj_path job_id FBX ''.fbx''))
      \<longrightarrow> fst (convert_to_fbx w obj_path job_id) = Inr obj_path
          \<and> set (written_paths (snd (convert_to_fbx w obj_path job_id)))
                \<subseteq> {output_path_for w job_id ''.fbx''})"
proof (intro conjI impI)
  have "\<not> isl (fst (try_except
       (spec_fallback_chain
         [convert_with_blender w obj_path job_id ''fbx'',
          trimesh_fbx_export w obj_path job_id,
          export_engine_fallback w obj_path job_id FBX ''.fbx''] obj_path)
       (\<lambda>e. ret obj_path)))"
    by (simp add: try_except_returns [OF spec_fallback_chain_returns] spec_fallback_chain_returns
             del: spec_fallback_chain.simps)
  then show "\<not> isl (fst (convert_to_fbx w obj_path job_id))"
    by (simp add: convert_to_fbx_def)
next
  assume h: "fst (find_blender_executable w) = Inr None
        \<and> isl (fst (trimesh_fbx_export w obj_path job_id))
        \<and> isl (fst (export_engine_fallback w obj_path job_id FBX ''.fbx''))"
  then obtain e2 e3 where
    t: "fst (trimesh_fbx_export w obj_path job_id) = Inl e2" and
    g: "fst (export_engine_fallback w obj_path job_id FBX ''.fbx'') = Inl e3"
    by (auto simp: isl_def)
  from h have b: "fst (find_blender_executable w) = Inr None" by simp
  show "fst (convert_to_fbx w obj_path job_id) = Inr obj_path"
    by (simp add: convert_to_fbx_def fst_try_except blender_not_found [OF b] t g)
  have "snd (convert_to_fbx w obj_path job_id) =
          snd (find_blender_executable w) @ snd (trimesh_fbx_export w obj_path job_id)
          @ snd (export_engine_fallback w obj_path job_id FBX ''.fbx'')"
    by (simp add: convert_to_fbx_def fst_try_except snd_try_except blender_not_found [OF b] t g)
  then show "set (written_paths (snd (convert_to_fbx w obj_path job_id)))
                \<subseteq> {output_path_for w job_id ''.fbx''}"
    using trimesh_fbx_export_writes [of w obj_path job_id]
          export_engine_fallback_writes [of w obj_path job_id FBX "''.fbx''"]
    by (simp add: find_blender_executable_writes)
qed

theorem convert_to_fbx_degrades_to_obj_witness:
  "fst (convert_to_fbx bare_world ''generated/model_7.obj'' (Job_int 7)) = Inr ''generated/model_7.obj''
   \<and> set (written_paths (snd (convert_to_fbx bare_world ''generated/model_7.obj'' (Job_int 7))))
        \<subseteq> {''generated/model_7.fbx''}"
proof -
  have h: "fst (find_blender_executable bare_world) = Inr None
        \<and> isl (fst (trimesh_fbx_export bare_world ''generated/model_7.obj'' (Job_int 7)))
        \<and> isl (fst (export_engine_fallback bare_world ''generated/model_7.obj'' (Job_int 7) FBX ''.fbx''))"
    by code_simp
  have p: "output_path_for bare_world (Job_int 7) ''.fbx'' = ''generated/model_7.fbx''"
    by code_simp
  from convert_to_fbx_degrades_to_obj [of bare_world "''generated/model_7.obj''" "Job_int 7"] h
  show ?thesis unfolding p by blast
qed

section \<open>Properties of \<^verbatim>\<open>generate_3d_model\<close>\<close>

lemma blank_prompt: "(prompt = [] \<or> length (strip prompt) = 0) = (strip prompt = [])"
  by (auto simp: strip_def)

lemma generate_3d_model_unfold:
  "generate_3d_model gw prompt reference_image_path job_id engine_name complexity_arg detail_level_arg style_arg =
     (if strip prompt = [] then raise (ValueError ''Prompt cannot be empty'')
      else try_except
             (generate_3d_model_body gw (take 500 (strip prompt)) reference_image_path job_id
                (if engine_name \<notin> set valid_engines then ''hybrid'' else engine_name)
                (max 1 (min 10 complexity_arg)) (max 1 (min 10 detail_level_arg))
                (if style_arg \<notin> set valid_styles then ''realistic'' else style_arg))
             (\<lambda>e. raise (Exception (''3D model generation failed: '' @ str_of_exn e))))"
  unfolding generate_3d_model_def blank_prompt Let_def by (rule refl)

text \<open>
  Claim C10. For every prompt that is not blank, \<^verbatim>\<open>generate_3d_model\<close> works on the
  first 500 characters of the stripped prompt and on nothing else of it: two prompts
  whose stripped texts agree on their first 500 characters give the same run, with
  whatever collaborators and other arguments.
\<close>

theorem prompt_truncated_to_500:
  "(strip p1 \<noteq> [] \<and> take 500 (strip p1) = take 500 (strip p2)
      \<longrightarrow> generate_3d_model gw p1 reference_image_path job_id engine_name complexity_arg detail_level_arg style_arg
          = generate_3d_model gw p2 reference_image_path job_id engine_name complexity_arg detail_level_arg style_arg)
   \<and> (strip p1 \<noteq> [] \<longrightarrow>
        generate_3d_model gw p1 reference_image_path job_id engine_name complexity_arg detail_level_arg style_arg
        = try_except
             (generate_3d_model_body gw (take 500 (strip p1)) reference_image_path job_id
                (if engine_name \<notin> set valid_engines then ''hybrid'' else engine_name)
                (max 1 (min 10 complexity_arg)) (max 1 (min 10 detail_level_arg))
                (if style_arg \<notin> set valid_styles then ''realistic'' else style_arg))
             (\<lambda>e. raise (Exception (''3D model generation failed: '' @ str_of_exn e))))"
proof (intro conjI impI)
  assume h: "strip p1 \<noteq> [] \<and> take 500 (strip p1) = take 500 (strip p2)"
  then have "take 500 (strip p2) \<noteq> []" by (metis take_eq_Nil zero_neq_numeral)
  then have "strip p2 \<noteq> []" by auto
  with h show "generate_3d_model gw p1 reference_image_path job_id engine_name complexity_arg detail_level_arg style_arg
          = generate_3d_model gw p2 reference_image_path job_id engine_name complexity_arg detail_level_arg style_arg"
    by (simp add: generate_3d_model_unfold)
next
  assume "strip p1 \<noteq> []"
  then show "generate_3d_model gw p1 reference_image_path job_id engine_name complexity_arg detail_level_arg style_arg
        = try_except
             (generate_3d_model_body gw (take 500 (strip p1)) reference_image_path job_id
                (if engine_name \<notin> set valid_engines then ''hybrid'' else engine_name)
                (max 1 (min 10 complexity_arg)) (max 1 (min 10 detail_level_arg))
                (if style_arg \<notin> set valid_styles then ''realistic'' else style_arg))
             (\<lambda>e. raise (Exception (''3D model generation failed: '' @ str_of_exn e)))"
    by (simp add: generate_3d_model_unfold)
qed

theorem prompt_truncated_to_500_witness:
  "generate_3d_model studio_world (replicate 500 (CHR ''a'') @ ''car'') None None ''hybrid'' 7 8 ''realistic''
     = generate_3d_model studio_world (replicate 500 (CHR ''a'') @ ''boat'') None None ''hybrid'' 7 8 ''realistic''"
proof -
  have h: "strip (replicate 500 (CHR ''a'') @ ''car'') \<noteq> []
           \<and> take 500 (strip (replicate 500 (CHR ''a'') @ ''car''))
               = take 500 (strip (replicate 500 (CHR ''a'') @ ''boat''))"
    by code_simp
  from prompt_truncated_to_500 [of "replicate 500 (CHR ''a'') @ ''car''" "replicate 500 (CHR ''a'') @ ''boat''"
         studio_world None None "''hybrid''" 7 8 "''realistic''"] h
  show ?thesis by blast
qed





lemma fallback_generation_raises_iff:
  "isl (fst (fallback_generation gw prompt r j e c d s)) \<longleftrightarrow>
     \<not> USE_ADVANCED gw \<and> isl (generate_geometry_from_prompt gw prompt) \<and> isl (create_default_mesh gw)"
proof (cases "USE_ADVANCED gw")
  case True
  then show ?thesis
    by (cases "GenerationEngine_of e")
       (auto simp: fallback_generation_def fst_try_except fst_bind Let_def split: sum.splits)
next
  case False
  then show ?thesis
    by (cases "generate_geometry_from_prompt gw prompt"; cases "create_default_mesh gw")
       (simp_all add: fallback_generation_def fst_try_except fst_bind)
qed

lemma generate_mesh_raises_iff:
  "isl (fst (generate_mesh gw prompt r j e c d s)) \<longleftrightarrow>
     \<not> USE_ADVANCED gw \<and> isl (generate_geometry_from_prompt gw prompt) \<and> isl (create_default_mesh gw)"
proof (cases "ai_powered_generation gw e (multimodal_input gw prompt r) r")
  case None
  then show ?thesis
    by (simp add: generate_mesh_def Let_def fallback_generation_raises_iff)
next
  case (Some m)
  then have "USE_ADVANCED gw"
    by (auto simp: ai_powered_generation_def split: if_splits)
  with Some show ?thesis
    by (simp add: generate_mesh_def Let_def)
qed

lemma save_as_obj_raises_iff:
  "isl (fst (save_as_obj gw m prompt j)) \<longleftrightarrow>
     \<not> (USE_ADVANCED gw \<and> engine_export_obj gw m (obj_output_path gw prompt j) = Inr True)
     \<and> isl (direct_export gw m (obj_output_path gw prompt j))
     \<and> isl (direct_export gw m (replace ''.obj'' ''.stl'' (obj_output_path gw prompt j)))"
proof (cases "USE_ADVANCED gw \<and> engine_export_obj gw m (obj_output_path gw prompt j) = Inr True")
  case True
  then show ?thesis by (simp add: save_as_obj_def Let_def)
next
  case False
  then have n: "\<not> (USE_ADVANCED gw \<and>
               (case engine_export_obj gw m (obj_output_path gw prompt j) of
                  Inl e \<Rightarrow> False
                | Inr exported \<Rightarrow> exported))"
    by (auto split: sum.splits)
  show ?thesis
    using False
    by (cases "direct_export gw m (obj_output_path gw prompt j)";
        cases "direct_export gw m (replace ''.obj'' ''.stl'' (obj_output_path gw prompt j))")
       (simp_all add: save_as_obj_def Let_def n fst_try_except fst_bind del: replace.simps)
qed

lemma body_outcome:
  "fst (try_except (generate_3d_model_body gw P r j E C D S)
          (\<lambda>e. raise (Exception (''3D model generation failed: '' @ str_of_exn e)))) =
     (case fst (generate_mesh gw P r j E C D S) of
          Inl e \<Rightarrow> Inl (Exception (''3D model generation failed: '' @ str_of_exn e))
        | Inr None \<Rightarrow>
            Inl (Exception ''3D model generation failed: Failed to generate 3D geometry'')
        | Inr (Some m) \<Rightarrow>
            (case fst (save_as_obj gw (apply_material_and_texture gw m P S j) P j) of
               Inl e \<Rightarrow> Inl (Exception (''3D model generation failed: '' @ str_of_exn e))
             | Inr path \<Rightarrow> Inr path))"
proof (cases "fst (generate_mesh gw P r j E C D S)")
  case (Inl e)
  then show ?thesis
    by (simp add: generate_3d_model_body_def fst_try_except fst_bind)
next
  case (Inr produced)
  show ?thesis
  proof (cases produced)
    case None
    with Inr show ?thesis
      by (simp add: generate_3d_model_body_def fst_try_except fst_bind)
  next
    case (Some m)
    with Inr show ?thesis
      by (cases "fst (save_as_obj gw (apply_material_and_texture gw m P S j) P j)")
         (simp_all add: generate_3d_model_body_def fst_try_except fst_bind Let_def)
  qed
qed

text \<open>
  Claim C6. \<^verbatim>\<open>generate_3d_model\<close> raises in three cases and in no other: a
  \<^verbatim>\<open>ValueError\<close> for a blank prompt; an exception when no mesh is produced (the
  generation gives \<^verbatim>\<open>None\<close>, or, without the advanced modules, the basic generator
  and the default mesh both raise); an exception when every export fails (the export
  engine does not succeed and the export of the mesh library raises for the OBJ and
  for the STL path). Whatever else fails (multimodal processing, the AI services,
  material, texture, material file, the output directory, the export engine alone),
  a file path is returned.
\<close>

theorem generate_3d_model_failures:
  "fst (generate_3d_model gw prompt reference_image_path job_id engine_name complexity_arg
          detail_level_arg style_arg) =
     (if strip prompt = [] then Inl (ValueError ''Prompt cannot be empty'')
      else
        case fst (generate_mesh gw (take 500 (strip prompt)) reference_image_path job_id
                    (if engine_name \<notin> set valid_engines then ''hybrid'' else engine_name)
                    (max 1 (min 10 complexity_arg)) (max 1 (min 10 detail_level_arg))
                    (if style_arg \<notin> set valid_styles then ''realistic'' else style_arg)) of
          Inl e \<Rightarrow> Inl (Exception (''3D model generation failed: '' @ str_of_exn e))
        | Inr None \<Rightarrow>
            Inl (Exception ''3D model generation failed: Failed to generate 3D geometry'')
        | Inr (Some m) \<Rightarrow>
            (case fst (save_as_obj gw
                        (apply_material_and_texture gw m (take 500 (strip prompt))
                           (if style_arg \<notin> set valid_styles then ''realistic'' else style_arg) job_id)
                        (take 500 (strip prompt)) job_id) of
               Inl e \<Rightarrow> Inl (Exception (''3D model generation failed: '' @ str_of_exn e))
             | Inr path \<Rightarrow> Inr path))
   \<and> (isl (fst (generate_mesh gw p reference_image_path job_id e c d s)) \<longleftrightarrow>
        \<not> USE_ADVANCED gw \<and> isl (generate_geometry_from_prompt gw p) \<and> isl (create_default_mesh gw))
   \<and> (isl (fst (save_as_obj gw m' p job_id)) \<longleftrightarrow>
        \<not> (USE_ADVANCED gw \<and> engine_export_obj gw m' (obj_output_path gw p job_id) = Inr True)
        \<and> isl (direct_export gw m' (obj_output_path gw p job_id))
        \<and> isl (direct_export gw m' (replace ''.obj'' ''.stl'' (obj_output_path gw p job_id))))"
proof (intro conjI)
  show "fst (generate_3d_model gw prompt reference_image_path job_id engine_name complexity_arg
          detail_level_arg style_arg) =
     (if strip prompt = [] then Inl (ValueError ''Prompt cannot be empty'')
      else
        case fst (generate_mesh gw (take 500 (strip prompt)) reference_image_path job_id
                    (if engine_name \<notin> set valid_engines then ''hybrid'' else engine_name)
                    (max 1 (min 10 complexity_arg)) (max 1 (min 10 detail_level_arg))
                    (if style_arg \<notin> set valid_styles then ''realistic'' else style_arg)) of
          Inl e \<Rightarrow> Inl (Exception (''3D model generation failed: '' @ str_of_exn e))
        | Inr None \<Rightarrow>
            Inl (Exception ''3D model generation failed: Failed to generate 3D geometry'')
        | Inr (Some m) \<Rightarrow>
            (case fst (save_as_obj gw
                        (apply_material_and_texture gw m (take 500 (strip prompt))
                           (if style_arg \<notin> set valid_styles then ''realistic'' else style_arg) job_id)
                        (take 500 (strip prompt)) job_id) of
               Inl e \<Rightarrow> Inl (Exception (''3D model generation failed: '' @ str_of_exn e))
             | Inr path \<Rightarrow> Inr path))"
  proof (cases "strip prompt = []")
    case True
    then show ?thesis by (simp only: generate_3d_model_unfold if_True fst_raise simp_thms)
  next
    case False
    then show ?thesis by (simp only: generate_3d_model_unfold if_False body_outcome simp_thms)
  qed
next
  show "isl (fst (generate_mesh gw p reference_image_path job_id e c d s)) \<longleftrightarrow>
        \<not> USE_ADVANCED gw \<and> isl (generate_geometry_from_prompt gw p) \<and> isl (create_default_mesh gw)"
    by (rule generate_mesh_raises_iff)
next
  show "isl (fst (save_as_obj gw m' p job_id)) \<longleftrightarrow>
        \<not> (USE_ADVANCED gw \<and> engine_export_obj gw m' (obj_output_path gw p job_id) = Inr True)
        \<and> isl (direct_export gw m' (obj_output_path gw p job_id))
        \<and> isl (direct_export gw m' (replace ''.obj'' ''.stl'' (obj_output_path gw p job_id)))"
    by (rule save_as_obj_raises_iff)
qed

theorem generate_3d_model_failures_witness:
  "fst (generate_3d_model failing_studio_world ''a wooden chair'' (Some ''reference.png'')
          (Some (Job_int 7)) ''ai_enhanced'' 7 8 ''realistic'') = Inr ''model_7.obj''"
proof -
  have s: "strip ''a wooden chair'' \<noteq> []"
    by code_simp
  have g: "fst (generate_mesh failing_studio_world (take 500 (strip ''a wooden chair''))
                  (Some ''reference.png'') (Some (Job_int 7))
                  (if ''ai_enhanced'' \<notin> set valid_engines then ''hybrid'' else ''ai_enhanced'')
                  (max 1 (min 10 7)) (max 1 (min 10 8))
                  (if ''realistic'' \<notin> set valid_styles then ''realistic'' else ''realistic''))
           = Inr (Some (Box 1 1 1))"
    by code_simp
  have v: "fst (save_as_obj failing_studio_world
                  (apply_material_and_texture failing_studio_world (Box 1 1 1)
                     (take 500 (strip ''a wooden chair''))
                     (if ''realistic'' \<notin> set valid_styles then ''realistic'' else ''realistic'')
                     (Some (Job_int 7)))
                  (take 500 (strip ''a wooden chair'')) (Some (Job_int 7)))
           = Inr ''model_7.obj''"
    by code_simp
  from generate_3d_model_failures [of failing_studio_world "''a wooden chair''" "Some ''reference.png''"
         "Some (Job_int 7)" "''ai_enhanced''" 7 8 "''realistic''"]
  have "fst (generate_3d_model failing_studio_world ''a wooden chair'' (Some ''reference.png'')
          (Some (Job_int 7)) ''ai_enhanced'' 7 8 ''realistic'') =
     (if strip ''a wooden chair'' = [] then Inl (ValueError ''Prompt cannot be empty'')
      else
        case fst (generate_mesh failing_studio_world (take 500 (strip ''a wooden chair''))
                    (Some ''reference.png'') (Some (Job_int 7))
                    (if ''ai_enhanced'' \<notin> set valid_engines then ''hybrid'' else ''ai_enhanced'')
                    (max 1 (min 10 7)) (max 1 (min 10 8))
                    (if ''realistic'' \<notin> set valid_styles then ''realistic'' else ''realistic'')) of
          Inl e \<Rightarrow> Inl (Exception (''3D model generation failed: '' @ str_of_exn e))
        | Inr None \<Rightarrow>
            Inl (Exception ''3D model generation failed: Failed to generate 3D geometry'')
        | Inr (Some m) \<Rightarrow>
            (case fst (save_as_obj failing_studio_world
                        (apply_material_and_texture failing_studio_world m
                           (take 500 (strip ''a wooden chair''))
                           (if ''realistic'' \<notin> set valid_styles then ''realistic'' else ''realistic'')
                           (Some (Job_int 7)))
                        (take 500 (strip ''a wooden chair'')) (Some (Job_int 7))) of
               Inl e \<Rightarrow> Inl (Exception (''3D model generation failed: '' @ str_of_exn e))
             | Inr path \<Rightarrow> Inr path))"
    by (rule conjunct1)
  then show ?thesis
    by (simp only: s g v if_False sum.case option.case)
qed

section \<open>Properties of the generation task\<close>

lemma treturn_apply [simp]: "treturn v st = (Inr v, st)"
  by (simp add: treturn_def)

lemma traise_apply [simp]: "traise e st = (Inl e, st)"
  by (simp add: traise_def)

lemma reading_apply [simp]: "reading f st = (Inr (f st), st)"
  by (simp add: reading_def)

lemma modify_apply [simp]: "modify f st = (Inr (), f st)"
  by (simp add: modify_def)

lemma calling_apply [simp]: "calling outcome st = (outcome, st)"
  by (simp add: calling_def)



lemma snd_attempt [simp]: "snd (attempt tw s st) = st"
  by (cases "fails tw s") (simp_all add: attempt_def)


















































end
